theory Spec2Isabelle
  imports
    Complex_Main
    "HOL-Library.AList"
    "HOL-Library.Sublist"
    "HOL-Library.Char_ord"
    "HOL-Library.List_Lexorder"
    "HOL-Library.Multiset"
begin

section \<open>Numbers\<close>

text \<open>
  The pipeline of \<^verbatim>\<open>app.py\<close> computes on pandas columns of float64. A cell of a numeric
  column is a number or NaN (\<^verbatim>\<open>pd.to_numeric(..., errors='coerce')\<close> turns a non-numeric
  ROI into NaN; an empty CSV cell is NaN): it is a \<open>rat option\<close>, \<open>None\<close> for NaN.
  A computed value is an \<open>fval\<close>: a finite number, one of the two infinities that a numpy
  division by zero yields, or NaN. Finite values are exact rationals: the rounding of
  float64 and the sign of zero are not part of this model.
\<close>

datatype fval = Fin rat | PInf | NInf | NaN

fun fval_of :: "rat option \<Rightarrow> fval" where
  "fval_of None = NaN"
| "fval_of (Some x) = Fin x"

text \<open>Subtraction, division and multiplication of numpy float64 scalars: none of them raises.\<close>

fun fsub :: "fval \<Rightarrow> fval \<Rightarrow> fval" where
  "fsub NaN b = NaN"
| "fsub a NaN = NaN"
| "fsub (Fin x) (Fin y) = Fin (x - y)"
| "fsub (Fin x) PInf = NInf"
| "fsub (Fin x) NInf = PInf"
| "fsub PInf PInf = NaN"
| "fsub PInf b = PInf"
| "fsub NInf NInf = NaN"
| "fsub NInf b = NInf"

fun fneg :: "fval \<Rightarrow> fval" where
  "fneg (Fin x) = Fin (- x)"
| "fneg PInf = NInf"
| "fneg NInf = PInf"
| "fneg NaN = NaN"

fun fdiv :: "fval \<Rightarrow> fval \<Rightarrow> fval" where
  "fdiv NaN b = NaN"
| "fdiv a NaN = NaN"
| "fdiv (Fin x) (Fin y) =
     (if y = 0 then (if x = 0 then NaN else if 0 < x then PInf else NInf)
      else Fin (x / y))"
| "fdiv (Fin x) b = Fin 0"
| "fdiv a (Fin y) = (if 0 \<le> y then a else fneg a)"
| "fdiv a b = NaN"

fun fmul :: "fval \<Rightarrow> fval \<Rightarrow> fval" where
  "fmul NaN b = NaN"
| "fmul a NaN = NaN"
| "fmul (Fin x) (Fin y) = Fin (x * y)"
| "fmul (Fin x) b = (if x = 0 then NaN else if 0 < x then b else fneg b)"
| "fmul a (Fin y) = (if y = 0 then NaN else if 0 < y then a else fneg a)"
| "fmul a b = (if a = b then PInf else NInf)"

text \<open>
  \<^verbatim>\<open>Series.sum()\<close> and \<^verbatim>\<open>Series.mean()\<close> skip NaN cells (\<^verbatim>\<open>skipna=True\<close>). The sum of no
  cells is 0; the mean of no cells is NaN.
\<close>

fun dropna :: "rat option list \<Rightarrow> rat list" where
  "dropna [] = []"
| "dropna (None # xs) = dropna xs"
| "dropna (Some x # xs) = x # dropna xs"

definition pd_sum :: "rat option list \<Rightarrow> fval" where
  "pd_sum xs = Fin (sum_list (dropna xs))"

definition mean_opt :: "rat option list \<Rightarrow> rat option" where
  "mean_opt xs =
     (let ys = dropna xs
      in if ys = [] then None else Some (sum_list ys / of_nat (length ys)))"

definition pd_mean :: "rat option list \<Rightarrow> fval" where
  "pd_mean xs = fval_of (mean_opt xs)"

section \<open>Timestamps and the reporting periods\<close>

text \<open>
  A cell of the \<^verbatim>\<open>Date\<close> column after \<^verbatim>\<open>pd.to_datetime\<close> is a pandas Timestamp: a calendar
  date with a time of day, here in nanoseconds since midnight. Timestamps are compared
  lexicographically. \<^verbatim>\<open>replace(day=1)\<close> keeps the time of day, and so does the subtraction
  of \<^verbatim>\<open>pd.Timedelta(days=1)\<close>.
\<close>

record timestamp =
  year :: nat
  month :: nat
  day :: nat
  tod :: nat

definition is_leap :: "nat \<Rightarrow> bool" where
  "is_leap y = (y mod 4 = 0 \<and> (y mod 100 \<noteq> 0 \<or> y mod 400 = 0))"

definition days_in_month :: "nat \<Rightarrow> nat \<Rightarrow> nat" where
  "days_in_month y m =
     (if m = 2 then (if is_leap y then 29 else 28)
      else if m = 4 \<or> m = 6 \<or> m = 9 \<or> m = 11 then 30 else 31)"

text \<open>
  The timestamps pandas can hold lie between 1677-09-21 and 2262-04-11; the model takes
  the whole years in between.
\<close>

definition valid_ts :: "timestamp \<Rightarrow> bool" where
  "valid_ts t =
     (1678 \<le> year t \<and> year t \<le> 2261 \<and> 1 \<le> month t \<and> month t \<le> 12 \<and>
      1 \<le> day t \<and> day t \<le> days_in_month (year t) (month t) \<and>
      tod t < 86400000000000)"

definition ts_less :: "timestamp \<Rightarrow> timestamp \<Rightarrow> bool" where
  "ts_less a b =
     (year a < year b \<or> (year a = year b \<and>
       (month a < month b \<or> (month a = month b \<and>
         (day a < day b \<or> (day a = day b \<and> tod a < tod b))))))"

definition ts_le :: "timestamp \<Rightarrow> timestamp \<Rightarrow> bool" where
  "ts_le a b = (ts_less a b \<or> a = b)"

definition ts_max :: "timestamp \<Rightarrow> timestamp \<Rightarrow> timestamp" where
  "ts_max a b = (if ts_less a b then b else a)"

text \<open>\<^verbatim>\<open>t.replace(day=1)\<close>.\<close>

definition replace_day1 :: "timestamp \<Rightarrow> timestamp" where
  "replace_day1 t = t\<lparr>day := 1\<rparr>"

text \<open>\<^verbatim>\<open>t - pd.Timedelta(days=1)\<close>: the same time of day on the calendar day before.\<close>

definition minus_one_day :: "timestamp \<Rightarrow> timestamp" where
  "minus_one_day t =
     (if 1 < day t then t\<lparr>day := day t - 1\<rparr>
      else if 1 < month t
        then t\<lparr>month := month t - 1, day := days_in_month (year t) (month t - 1)\<rparr>
      else t\<lparr>year := year t - 1, month := 12, day := 31\<rparr>)"

text \<open>
  The proleptic Gregorian ordinal of the calendar day, as \<^verbatim>\<open>datetime.date.toordinal\<close>
  computes it: the days before the year, the days before the month, the day.
\<close>

definition days_before_year :: "nat \<Rightarrow> nat" where
  "days_before_year y =
     (y - 1) * 365 + (y - 1) div 4 - (y - 1) div 100 + (y - 1) div 400"

fun days_before_month :: "nat \<Rightarrow> nat \<Rightarrow> nat" where
  "days_before_month y 0 = 0"
| "days_before_month y (Suc m) =
     (if m = 0 then 0 else days_before_month y m + days_in_month y m)"

definition toordinal :: "timestamp \<Rightarrow> nat" where
  "toordinal t = days_before_year (year t) + days_before_month (year t) (month t) + day t"

section \<open>The data model\<close>

text \<open>
  One line of the ingested dataset, with the columns that \<^verbatim>\<open>analyze\<close> reads. The date,
  the client and the channel of a row are present: a row with an empty cell in one of
  these three columns is not a value of this type.
\<close>

record row =
  Date :: timestamp
  Company :: string
  Channel_Used :: string
  Acquisition_Cost :: "rat option"
  ROI :: "rat option"
  Conversion_Rate :: "rat option"

text \<open>The dictionary that \<^verbatim>\<open>get_metrics\<close> returns, and the dictionary \<^verbatim>\<open>delta\<close>.\<close>

record metric_set =
  spend :: fval
  roi :: fval
  conv :: fval

record delta_set =
  spend_pct :: fval
  roi_pct :: fval
  conv_pct :: fval

text \<open>One value of \<^verbatim>\<open>self.client_reports\<close>.\<close>

record client_report =
  current :: metric_set
  prev :: metric_set
  delta :: delta_set
  best_channel :: string
  best_channel_roi :: fval
  trend_data :: "(timestamp \<times> fval) list"
  narrative :: string

text \<open>
  The part of the application state that the pipeline reads and writes. A Python
  dictionary keeps its keys in insertion order: \<^verbatim>\<open>client_reports\<close> is an association
  list, and \<^verbatim>\<open>d[k] = v\<close> is \<open>AList.update\<close> (in place for a key that is there, at
  the end for a new one). \<^verbatim>\<open>model\<close> is the handle of the generative model, here the
  name it was made from.
\<close>

record app =
  df :: "row list"
  client_reports :: "(string \<times> client_report) list"
  api_key :: "string option"
  model :: "string option"

datatype error = ValueError | IndexError

section \<open>Period detection (\<^verbatim>\<open>analyze\<close>, lines 122 to 125)\<close>

record periods =
  last_date :: timestamp
  current_month_start :: timestamp
  prev_month_end :: timestamp
  prev_month_start :: timestamp

text \<open>\<^verbatim>\<open>df['Date'].max()\<close>; of an empty column it is \<^verbatim>\<open>NaT\<close>.\<close>

definition max_date :: "row list \<Rightarrow> timestamp option" where
  "max_date d =
     (case d of [] \<Rightarrow> None | r # rs \<Rightarrow> Some (fold ts_max (map Date rs) (Date r)))"

definition period_resolver :: "timestamp \<Rightarrow> periods" where
  "period_resolver D =
     (let cms = replace_day1 D;
          pme = minus_one_day cms;
          pms = replace_day1 pme
      in \<lparr>last_date = D, current_month_start = cms,
          prev_month_end = pme, prev_month_start = pms\<rparr>)"

section \<open>Aggregation and deltas (\<^verbatim>\<open>analyze\<close>, lines 135 to 158)\<close>

definition c_df :: "row list \<Rightarrow> string \<Rightarrow> row list" where
  "c_df d company = filter (\<lambda>r. Company r = company) d"

definition curr_df :: "periods \<Rightarrow> row list \<Rightarrow> string \<Rightarrow> row list" where
  "curr_df p d company =
     filter (\<lambda>r. ts_le (current_month_start p) (Date r) \<and> ts_le (Date r) (last_date p))
       (c_df d company)"

definition prev_df :: "periods \<Rightarrow> row list \<Rightarrow> string \<Rightarrow> row list" where
  "prev_df p d company =
     filter (\<lambda>r. ts_le (prev_month_start p) (Date r) \<and> ts_le (Date r) (prev_month_end p))
       (c_df d company)"

definition get_metrics :: "row list \<Rightarrow> metric_set" where
  "get_metrics d =
     \<lparr>spend = pd_sum (map Acquisition_Cost d),
      roi = pd_mean (map ROI d),
      conv = fmul (pd_mean (map Conversion_Rate d)) (Fin 100)\<rparr>"

text \<open>The dictionary \<^verbatim>\<open>{'spend':1, 'roi':1, 'conv':1}\<close> of line 150.\<close>

definition sentinel :: metric_set where
  "sentinel = \<lparr>spend = Fin 1, roi = Fin 1, conv = Fin 1\<rparr>"

definition delta_pct :: "fval \<Rightarrow> fval \<Rightarrow> fval" where
  "delta_pct c p = fmul (fdiv (fsub c p) p) (Fin 100)"

definition delta_of :: "metric_set \<Rightarrow> metric_set \<Rightarrow> delta_set" where
  "delta_of c p =
     \<lparr>spend_pct = delta_pct (spend c) (spend p),
      roi_pct = delta_pct (roi c) (roi p),
      conv_pct = delta_pct (conv c) (conv p)\<rparr>"

section \<open>The best channel (\<^verbatim>\<open>analyze\<close>, lines 161 to 167)\<close>

text \<open>
  \<^verbatim>\<open>groupby('Channel_Used')['ROI'].mean()\<close>: one entry for each channel, the channels in
  ascending order, with the mean of the group's ROI cells (NaN when the group has none).
\<close>

definition channel_roi :: "row list \<Rightarrow> string \<Rightarrow> rat option" where
  "channel_roi d c = mean_opt (map ROI (filter (\<lambda>r. Channel_Used r = c) d))"

definition groupby_mean_roi :: "row list \<Rightarrow> (string \<times> rat option) list" where
  "groupby_mean_roi d = map (\<lambda>c. (c, channel_roi d c)) (sort (remdups (map Channel_Used d)))"

text \<open>
  \<^verbatim>\<open>sort_values(ascending=False)\<close>: the entries with a number in descending order, then
  the NaN entries (\<^verbatim>\<open>na_position='last'\<close>). Entries with equal values keep the order they
  had, as a stable sort leaves them.
\<close>

definition desc_key :: "string \<times> rat option \<Rightarrow> rat" where
  "desc_key e = (case snd e of None \<Rightarrow> 0 | Some m \<Rightarrow> - m)"

definition sort_values_desc :: "(string \<times> rat option) list \<Rightarrow> (string \<times> rat option) list" where
  "sort_values_desc xs =
     sort_key desc_key (filter (\<lambda>e. snd e \<noteq> None) xs) @ filter (\<lambda>e. snd e = None) xs"

text \<open>\<^verbatim>\<open>index[0]\<close> and \<^verbatim>\<open>iloc[0]\<close> raise IndexError on an empty series.\<close>

definition channel_ranker :: "row list \<Rightarrow> error + (string \<times> fval)" where
  "channel_ranker d =
     (case sort_values_desc (groupby_mean_roi d) of
        [] \<Rightarrow> Inl IndexError
      | e # _ \<Rightarrow> Inr (fst e, fval_of (snd e)))"

section \<open>The daily trend (\<^verbatim>\<open>analyze\<close>, line 175)\<close>

text \<open>
  \<^verbatim>\<open>set_index('Date').resample('D')['ROI'].mean()\<close>: one entry for each calendar day from
  the first to the last day of the rows, labelled with the day's midnight, holding the mean
  ROI of the day's rows. The rows of a current period lie in one month.
\<close>

definition resample_daily_roi :: "row list \<Rightarrow> (timestamp \<times> fval) list" where
  "resample_daily_roi d =
     (case d of [] \<Rightarrow> []
      | r # _ \<Rightarrow>
         (let ds = map (\<lambda>x. day (Date x)) d
          in map (\<lambda>n. (\<lparr>year = year (Date r), month = month (Date r), day = n, tod = 0\<rparr>,
                        pd_mean (map ROI (filter (\<lambda>x. day (Date x) = n) d))))
               [Min (set ds) ..< Suc (Max (set ds))]))"

section \<open>\<^verbatim>\<open>analyze\<close>\<close>

text \<open>\<^verbatim>\<open>df['Company'].unique()\<close>: the distinct values in the order of their first rows.\<close>

definition pd_unique :: "'a list \<Rightarrow> 'a list" where
  "pd_unique xs = rev (remdups (rev xs))"

text \<open>
  The body of the loop for one company: \<open>Inr None\<close> is the \<^verbatim>\<open>continue\<close> of line 139,
  \<open>Inr (Some r)\<close> the report stored at line 169, \<open>Inl e\<close> an exception.
\<close>

definition analyze_company :: "periods \<Rightarrow> row list \<Rightarrow> string \<Rightarrow> error + client_report option" where
  "analyze_company p d company =
     (let cur = curr_df p d company;
          prv = prev_df p d company
      in if cur = [] then Inr None
         else
           (let curr = get_metrics cur;
                prev = (if prv \<noteq> [] then get_metrics prv else sentinel);
                delta = delta_of curr prev
            in case (if cur \<noteq> [] then channel_ranker cur else Inr (''N/A'', Fin 0)) of
                 Inl e \<Rightarrow> Inl e
               | Inr best \<Rightarrow>
                   Inr (Some \<lparr>current = curr, prev = prev, delta = delta,
                              best_channel = fst best, best_channel_roi = snd best,
                              trend_data = resample_daily_roi cur,
                              narrative = ''Pending...''\<rparr>)))"

fun analyze_loop ::
  "periods \<Rightarrow> row list \<Rightarrow> string list \<Rightarrow> (string \<times> client_report) list
     \<Rightarrow> error + (string \<times> client_report) list" where
  "analyze_loop p d [] reps = Inr reps"
| "analyze_loop p d (company # companies) reps =
     (case analyze_company p d company of
        Inl e \<Rightarrow> Inl e
      | Inr None \<Rightarrow> analyze_loop p d companies reps
      | Inr (Some r) \<Rightarrow> analyze_loop p d companies (AList.update company r reps))"

text \<open>
  \<^verbatim>\<open>analyze\<close>. On an empty dataset \<^verbatim>\<open>last_date\<close> is \<^verbatim>\<open>NaT\<close>, whose \<^verbatim>\<open>strftime\<close> at
  line 127 raises ValueError. The label \<^verbatim>\<open>reporting_period\<close> is text for the prompt and
  the PDF only and is left out.
\<close>

definition analyze :: "app \<Rightarrow> error + app" where
  "analyze st =
     (case max_date (df st) of
        None \<Rightarrow> Inl ValueError
      | Some D \<Rightarrow>
          (case analyze_loop (period_resolver D) (df st)
                  (pd_unique (map Company (df st))) (client_reports st) of
             Inl e \<Rightarrow> Inl e
           | Inr reps \<Rightarrow> Inr (st\<lparr>client_reports := reps\<rparr>)))"

section \<open>\<^verbatim>\<open>find_working_model\<close>\<close>

text \<open>One element of \<^verbatim>\<open>genai.list_models()\<close>.\<close>

record model_info =
  name :: string
  supported_generation_methods :: "string list"

definition priorities :: "string list" where
  "priorities = [''models/gemini-1.5-pro'', ''models/gemini-1.5-flash'', ''models/gemini-pro'']"

text \<open>
  The argument is the listing that the service returns, \<open>None\<close> when the call or the
  iteration raises: the bare \<^verbatim>\<open>except\<close> of line 63 then returns \<^verbatim>\<open>None\<close>.
\<close>

definition available_models :: "model_info list \<Rightarrow> string list" where
  "available_models ms =
     map name (filter (\<lambda>m. ''generateContent'' \<in> set (supported_generation_methods m)) ms)"

definition find_working_model :: "model_info list option \<Rightarrow> string option" where
  "find_working_model listing =
     (case listing of
        None \<Rightarrow> None
      | Some ms \<Rightarrow>
          (let av = available_models ms
           in case find (\<lambda>p. p \<in> set av) priorities of
                Some p \<Rightarrow> Some p
              | None \<Rightarrow> find (\<lambda>m. sublist ''gemini'' m) av))"

section \<open>\<^verbatim>\<open>generate_report_text\<close>\<close>

text \<open>\<^verbatim>\<open>s.replace(a + b, '')\<close> for a pattern of two characters, scanning from the left.\<close>

fun remove2 :: "char \<Rightarrow> char \<Rightarrow> string \<Rightarrow> string" where
  "remove2 a b (x # y # zs) =
     (if x = a \<and> y = b then remove2 a b zs else x # remove2 a b (y # zs))"
| "remove2 a b zs = zs"

definition clean_markdown :: "string \<Rightarrow> string" where
  "clean_markdown t = remove2 (CHR ''#'') (CHR ''#'') (remove2 (CHR ''*'') (CHR ''*'') t)"

text \<open>\<^verbatim>\<open>self.api_key and self.model\<close>: a key that is neither \<^verbatim>\<open>None\<close> nor empty, and a model.\<close>

definition ai_enabled :: "app \<Rightarrow> bool" where
  "ai_enabled st =
     ((case api_key st of None \<Rightarrow> False | Some k \<Rightarrow> k \<noteq> []) \<and> model st \<noteq> None)"

text \<open>
  The external call is a parameter: \<open>gen company data\<close> is the outcome of
  \<^verbatim>\<open>self.model.generate_content(prompt).text\<close> for the prompt built from the company and its
  report, \<open>None\<close> when the call or the reading of the text raises. The prompt is built from
  the report's numbers by string formatting, which reads the report and does not raise.
\<close>

definition narrative_for ::
  "(string \<Rightarrow> client_report \<Rightarrow> string option) \<Rightarrow> app \<Rightarrow> string \<Rightarrow> client_report \<Rightarrow> string" where
  "narrative_for gen st company data =
     (if ai_enabled st then
        (case gen company data of
           Some t \<Rightarrow> clean_markdown t
         | None \<Rightarrow> ''AI Unavailable.'')
      else ''Demo Mode: AI analysis skipped.'')"

fun generate_loop ::
  "(string \<Rightarrow> client_report \<Rightarrow> string option) \<Rightarrow> app \<Rightarrow> (string \<times> client_report) list
     \<Rightarrow> (string \<times> client_report) list" where
  "generate_loop gen st [] = []"
| "generate_loop gen st ((company, data) # items) =
     (company, data\<lparr>narrative := narrative_for gen st company data\<rparr>)
       # generate_loop gen st items"

definition generate_report_text ::
  "(string \<Rightarrow> client_report \<Rightarrow> string option) \<Rightarrow> app \<Rightarrow> app" where
  "generate_report_text gen st =
     st\<lparr>client_reports := generate_loop gen st (client_reports st)\<rparr>"

section \<open>Example datasets\<close>

text \<open>A dataset of one row in January: the previous month lies in the year before.\<close>

definition jan_row :: row where
  "jan_row = \<lparr>Date = \<lparr>year = 2024, month = 1, day = 15, tod = 0\<rparr>, Company = ''Acme'',
     Channel_Used = ''Search'', Acquisition_Cost = Some 100, ROI = Some 3,
     Conversion_Rate = Some (1/10)\<rparr>"

text \<open>
  Two rows of one client on the first day of March 2024, on two channels, and no row in
  February.
\<close>

definition acme_df :: "row list" where
  "acme_df =
     [\<lparr>Date = \<lparr>year = 2024, month = 3, day = 1, tod = 0\<rparr>, Company = ''Acme'',
       Channel_Used = ''Search'', Acquisition_Cost = Some 100, ROI = Some 3,
       Conversion_Rate = Some (1/10)\<rparr>,
      \<lparr>Date = \<lparr>year = 2024, month = 3, day = 1, tod = 0\<rparr>, Company = ''Acme'',
       Channel_Used = ''Social'', Acquisition_Cost = Some 50, ROI = Some (3/2),
       Conversion_Rate = Some (1/5)\<rparr>]"



text \<open>The application state after loading \<open>acme_df\<close>, without a key and a model.\<close>

definition acme_app :: app where
  "acme_app = \<lparr>df = acme_df, client_reports = [], api_key = None, model = None\<rparr>"

definition acme_report :: client_report where
  "acme_report =
     \<lparr>current = \<lparr>spend = Fin 150, roi = Fin (9/4), conv = Fin 15\<rparr>,
      prev = \<lparr>spend = Fin 1, roi = Fin 1, conv = Fin 1\<rparr>,
      delta = \<lparr>spend_pct = Fin 14900, roi_pct = Fin 125, conv_pct = Fin 1400\<rparr>,
      best_channel = ''Search'', best_channel_roi = Fin 3,
      trend_data = [(\<lparr>year = 2024, month = 3, day = 1, tod = 0\<rparr>, Fin (9/4))],
      narrative = ''Pending...''\<rparr>"




text \<open>Listings of the model service.\<close>

definition legacy_only :: "model_info list" where
  "legacy_only = [\<lparr>name = ''models/gemini-pro'', supported_generation_methods = [''generateContent'']\<rparr>]"

definition flash_then_pro :: "model_info list" where
  "flash_then_pro =
     [\<lparr>name = ''models/embedding-001'', supported_generation_methods = [''embedContent'']\<rparr>,
      \<lparr>name = ''models/gemini-1.5-flash'', supported_generation_methods = [''generateContent'']\<rparr>,
      \<lparr>name = ''models/gemini-1.5-pro'',
        supported_generation_methods = [''generateContent'', ''countTokens'']\<rparr>]"

definition family_only :: "model_info list" where
  "family_only =
     [\<lparr>name = ''models/text-bison'', supported_generation_methods = [''generateContent'']\<rparr>,
      \<lparr>name = ''models/gemini-1.5-pro'', supported_generation_methods = [''embedContent'']\<rparr>,
      \<lparr>name = ''models/gemini-ultra'', supported_generation_methods = [''generateContent'']\<rparr>]"

definition no_family :: "model_info list" where
  "no_family = [\<lparr>name = ''models/text-bison'', supported_generation_methods = [''generateContent'']\<rparr>]"

text \<open>
  The state after \<^verbatim>\<open>analyze\<close> on \<open>acme_df\<close>, without and with a key and a model, and
  two behaviours of the generation call: one that always raises and one that answers.
\<close>

definition acme_done :: app where
  "acme_done = acme_app\<lparr>client_reports := [(''Acme'', acme_report)]\<rparr>"

definition acme_keyed :: app where
  "acme_keyed = acme_done\<lparr>api_key := Some ''k'', model := Some ''models/gemini-pro''\<rparr>"

definition failing_gen :: "string \<Rightarrow> client_report \<Rightarrow> string option" where
  "failing_gen company data = None"

definition answering_gen :: "string \<Rightarrow> client_report \<Rightarrow> string option" where
  "answering_gen company data = Some ''## ROI is **up**''"

section \<open>Facts about timestamps\<close>

lemma ts_less_irrefl: "\<not> ts_less a a"
  by (simp add: ts_less_def)

lemma ts_less_trans: "ts_less a b \<Longrightarrow> ts_less b c \<Longrightarrow> ts_less a c"
  unfolding ts_less_def by (elim disjE conjE) simp_all

lemma ts_less_linear: "ts_less a b \<or> a = b \<or> ts_less b a"
proof (cases "a = b")
  case True
  then show ?thesis by simp
next
  case False
  then have "year a \<noteq> year b \<or> month a \<noteq> month b \<or> day a \<noteq> day b \<or> tod a \<noteq> tod b"
    using timestamp.equality [of a b] by auto
  then show ?thesis unfolding ts_less_def by arith
qed

lemma ts_le_refl: "ts_le a a"
  by (simp add: ts_le_def)

lemma ts_le_trans: "ts_le a b \<Longrightarrow> ts_le b c \<Longrightarrow> ts_le a c"
  unfolding ts_le_def using ts_less_trans by blast

lemma ts_max_cases: "ts_max a b = a \<or> ts_max a b = b"
  by (simp add: ts_max_def)

lemma ts_max_ge: "ts_le a (ts_max a b) \<and> ts_le b (ts_max a b)"
  unfolding ts_max_def ts_le_def using ts_less_linear by auto

lemma fold_ts_max_mem: "fold ts_max xs a \<in> set (a # xs)"
proof (induction xs arbitrary: a)
  case Nil
  then show ?case by simp
next
  case (Cons x xs)
  have "fold ts_max xs (ts_max x a) \<in> set (ts_max x a # xs)" by (rule Cons.IH)
  then show ?case using ts_max_cases [of x a] by auto
qed

lemma fold_ts_max_ge: "y \<in> set (a # xs) \<Longrightarrow> ts_le y (fold ts_max xs a)"
proof (induction xs arbitrary: a y)
  case Nil
  then show ?case by (simp add: ts_le_refl)
next
  case (Cons x xs)
  have top: "ts_le (ts_max x a) (fold ts_max xs (ts_max x a))"
    by (rule Cons.IH) simp
  from Cons.prems consider "y = a" | "y = x" | "y \<in> set xs" by auto
  then show ?case
  proof cases
    case 1
    then show ?thesis using ts_max_ge [of x a] top ts_le_trans by auto
  next
    case 2
    then show ?thesis using ts_max_ge [of x a] top ts_le_trans by auto
  next
    case 3
    then have "ts_le y (fold ts_max xs (ts_max x a))" by (intro Cons.IH) simp
    then show ?thesis by simp
  qed
qed

lemma max_date_mem: "max_date d = Some D \<Longrightarrow> D \<in> Date ` set d"
proof -
  assume a: "max_date d = Some D"
  then obtain r0 rs where d: "d = r0 # rs" and D: "D = fold ts_max (map Date rs) (Date r0)"
    by (auto simp: max_date_def split: list.splits)
  have "D \<in> set (Date r0 # map Date rs)" unfolding D by (rule fold_ts_max_mem)
  then show ?thesis unfolding d by auto
qed

lemma max_date_ge: "max_date d = Some D \<Longrightarrow> r \<in> set d \<Longrightarrow> ts_le (Date r) D"
proof -
  assume a: "max_date d = Some D" "r \<in> set d"
  then obtain r0 rs where d: "d = r0 # rs" and D: "D = fold ts_max (map Date rs) (Date r0)"
    by (auto simp: max_date_def split: list.splits)
  from a d have "Date r \<in> set (Date r0 # map Date rs)" by auto
  then show ?thesis unfolding D by (rule fold_ts_max_ge)
qed

lemma mod_100_imp_4: "(n::nat) mod 100 = 0 \<Longrightarrow> n mod 4 = 0"
proof -
  assume "n mod 100 = 0"
  then have "100 dvd n" by (simp add: mod_eq_0_iff_dvd)
  moreover have "(4::nat) dvd 100" by simp
  ultimately have "4 dvd n" by (rule dvd_trans [rotated])
  then show ?thesis by (simp add: mod_eq_0_iff_dvd)
qed

lemma mod_400_imp_100: "(n::nat) mod 400 = 0 \<Longrightarrow> n mod 100 = 0"
proof -
  assume "n mod 400 = 0"
  then have "400 dvd n" by (simp add: mod_eq_0_iff_dvd)
  moreover have "(100::nat) dvd 400" by simp
  ultimately have "100 dvd n" by (rule dvd_trans [rotated])
  then show ?thesis by (simp add: mod_eq_0_iff_dvd)
qed

lemma year_length_arith:
  fixes a b c k :: nat
  assumes "b \<le> a" "q100 \<longrightarrow> q4" "q400 \<longrightarrow> q100"
  shows "k + 365 + (if q4 then Suc a else a) - (if q100 then Suc b else b)
           + (if q400 then Suc c else c)
         = k + a - b + c + (if q4 \<and> (\<not> q100 \<or> q400) then 366 else 365)"
  using assms by (cases q4; cases q100; cases q400) simp_all

text \<open>A year has 366 days when it is a leap year and 365 otherwise.\<close>

lemma days_before_year_Suc:
  assumes "1 \<le> y"
  shows "days_before_year (Suc y) = days_before_year y + (if is_leap y then 366 else 365)"
proof -
  from assms obtain z where y: "y = Suc z" by (cases y) auto
  have le: "z div 100 \<le> z div 4" by (rule div_le_mono2) simp_all
  have i1: "Suc z mod 100 = 0 \<longrightarrow> Suc z mod 4 = 0" by (rule impI) (rule mod_100_imp_4)
  have i2: "Suc z mod 400 = 0 \<longrightarrow> Suc z mod 100 = 0" by (rule impI) (rule mod_400_imp_100)
  have "days_before_year (Suc y)
      = z * 365 + 365 + (if Suc z mod 4 = 0 then Suc (z div 4) else z div 4)
          - (if Suc z mod 100 = 0 then Suc (z div 100) else z div 100)
          + (if Suc z mod 400 = 0 then Suc (z div 400) else z div 400)"
    unfolding y days_before_year_def by (simp only: diff_Suc_1 div_Suc mult_Suc add.commute)
  also have "\<dots> = z * 365 + z div 4 - z div 100 + z div 400
      + (if Suc z mod 4 = 0 \<and> (\<not> Suc z mod 100 = 0 \<or> Suc z mod 400 = 0) then 366 else 365)"
    by (rule year_length_arith [OF le i1 i2])
  also have "\<dots> = days_before_year y + (if is_leap y then 366 else 365)"
    unfolding y days_before_year_def is_leap_def by (simp only: diff_Suc_1)
  finally show ?thesis .
qed

lemma days_before_month_12: "days_before_month y 12 + 31 = (if is_leap y then 366 else 365)"
  by (simp add: eval_nat_numeral days_in_month_def)

lemma days_before_month_step:
  "1 < m \<Longrightarrow> days_before_month y (m - 1) + days_in_month y (m - 1) = days_before_month y m"
  by (cases m) auto

text \<open>The day before has the ordinal before.\<close>

lemma toordinal_minus_one_day:
  assumes "2 \<le> year t" "1 \<le> month t" "1 \<le> day t"
  shows "Suc (toordinal (minus_one_day t)) = toordinal t"
proof -
  consider "1 < day t" | "day t = 1" "1 < month t" | "day t = 1" "month t = 1"
    using assms by linarith
  then show ?thesis
  proof cases
    case 1
    then show ?thesis by (simp add: minus_one_day_def toordinal_def)
  next
    case 2
    then show ?thesis
      using days_before_month_step [of "month t" "year t"]
      by (simp add: minus_one_day_def toordinal_def)
  next
    case 3
    from assms obtain y where y: "year t = Suc y" "1 \<le> y"
      by (cases "year t") auto
    show ?thesis
      using 3 y days_before_year_Suc [of y] days_before_month_12 [of y]
      by (simp add: minus_one_day_def toordinal_def eval_nat_numeral)
  qed
qed

section \<open>Facts about sums and means\<close>




section \<open>Facts about grouping and sorting\<close>





lemma groupby_set:
  "set (groupby_mean_roi d) = (\<lambda>c. (c, channel_roi d c)) ` Channel_Used ` set d"
  by (simp add: groupby_mean_roi_def)


lemma groupby_nonempty: "d \<noteq> [] \<Longrightarrow> groupby_mean_roi d \<noteq> []"
proof -
  assume "d \<noteq> []"
  then have "set (groupby_mean_roi d) \<noteq> {}" by (simp add: groupby_set)
  then show ?thesis by auto
qed



lemma sort_values_desc_nonempty: "xs \<noteq> [] \<Longrightarrow> sort_values_desc xs \<noteq> []"
proof -
  assume ne: "xs \<noteq> []"
  have "length (sort_values_desc xs) = length xs"
    using sum_length_filter_compl [of "\<lambda>e. snd e \<noteq> None" xs]
    by (simp add: sort_values_desc_def)
  then show ?thesis using ne by auto
qed

lemma channel_ranker_hd:
  assumes "sort_values_desc (groupby_mean_roi d) \<noteq> []"
  shows "channel_ranker d =
     Inr (fst (hd (sort_values_desc (groupby_mean_roi d))),
          fval_of (snd (hd (sort_values_desc (groupby_mean_roi d)))))"
  using assms by (cases "sort_values_desc (groupby_mean_roi d)") (simp_all add: channel_ranker_def)


section \<open>Facts about the analysis loop\<close>

lemma channel_ranker_total: "d \<noteq> [] \<Longrightarrow> \<exists>b. channel_ranker d = Inr b"
proof -
  assume "d \<noteq> []"
  then have "groupby_mean_roi d \<noteq> []" by (rule groupby_nonempty)
  then have "sort_values_desc (groupby_mean_roi d) \<noteq> []" by (rule sort_values_desc_nonempty)
  then show ?thesis using channel_ranker_hd by blast
qed

lemma analyze_company_skip: "curr_df p d c = [] \<Longrightarrow> analyze_company p d c = Inr None"
  by (simp add: analyze_company_def)

lemma analyze_company_report:
  assumes "curr_df p d c \<noteq> []"
  shows "\<exists>r. analyze_company p d c = Inr (Some r)
     \<and> current r = get_metrics (curr_df p d c)
     \<and> prev r = (if prev_df p d c \<noteq> [] then get_metrics (prev_df p d c) else sentinel)
     \<and> delta r = delta_of (current r) (prev r)
     \<and> channel_ranker (curr_df p d c) = Inr (best_channel r, best_channel_roi r)
     \<and> trend_data r = resample_daily_roi (curr_df p d c)
     \<and> narrative r = ''Pending...''"
proof -
  from assms obtain b where b: "channel_ranker (curr_df p d c) = Inr b"
    using channel_ranker_total by blast
  show ?thesis using assms b by (simp add: analyze_company_def Let_def)
qed

lemma analyze_company_cases:
  "(curr_df p d c = [] \<and> analyze_company p d c = Inr None)
   \<or> (curr_df p d c \<noteq> [] \<and> (\<exists>r. analyze_company p d c = Inr (Some r)))"
  using analyze_company_skip [of p d c] analyze_company_report [of p d c] by blast

text \<open>The loop does not raise, and its result is the dictionary updated company by company.\<close>

lemma analyze_loop_total: "\<exists>reps'. analyze_loop p d cs reps = Inr reps'"
proof (induction cs arbitrary: reps)
  case Nil
  then show ?case by simp
next
  case (Cons c cs)
  show ?case
    using analyze_company_cases [of p d c] Cons.IH by (auto split: sum.splits option.splits)
qed

lemma analyze_loop_lookup:
  assumes "analyze_loop p d cs reps = Inr reps'"
  shows "map_of reps' c =
     (if c \<in> set cs \<and> curr_df p d c \<noteq> []
      then (case analyze_company p d c of Inr v \<Rightarrow> v | Inl e \<Rightarrow> None)
      else map_of reps c)"
  using assms
proof (induction cs arbitrary: reps)
  case Nil
  then show ?case by simp
next
  case (Cons x cs)
  consider "curr_df p d x = []" "analyze_company p d x = Inr None"
    | r where "curr_df p d x \<noteq> []" "analyze_company p d x = Inr (Some r)"
    using analyze_company_cases [of p d x] by blast
  then show ?case
  proof cases
    case 1
    with Cons.prems have "analyze_loop p d cs reps = Inr reps'" by simp
    then have "map_of reps' c =
       (if c \<in> set cs \<and> curr_df p d c \<noteq> []
        then (case analyze_company p d c of Inr v \<Rightarrow> v | Inl e \<Rightarrow> None)
        else map_of reps c)" by (rule Cons.IH)
    then show ?thesis using 1 by auto
  next
    case 2
    with Cons.prems have "analyze_loop p d cs (AList.update x r reps) = Inr reps'" by simp
    then have "map_of reps' c =
       (if c \<in> set cs \<and> curr_df p d c \<noteq> []
        then (case analyze_company p d c of Inr v \<Rightarrow> v | Inl e \<Rightarrow> None)
        else map_of (AList.update x r reps) c)" by (rule Cons.IH)
    then show ?thesis using 2 by (auto simp: update_conv')
  qed
qed





lemma analyze_result:
  assumes "max_date (df st) = Some D"
  shows "\<exists>reps'. analyze st = Inr (st\<lparr>client_reports := reps'\<rparr>)
     \<and> analyze_loop (period_resolver D) (df st) (pd_unique (map Company (df st)))
          (client_reports st) = Inr reps'"
proof -
  obtain reps' where "analyze_loop (period_resolver D) (df st)
      (pd_unique (map Company (df st))) (client_reports st) = Inr reps'"
    using analyze_loop_total by blast
  then show ?thesis using assms by (simp add: analyze_def)
qed


lemma analyze_stored_report:
  assumes "analyze st = Inr st'" and "max_date (df st) = Some D"
    and "client_reports st = []" and "map_of (client_reports st') c = Some r"
  shows "curr_df (period_resolver D) (df st) c \<noteq> []"
    and "analyze_company (period_resolver D) (df st) c = Inr (Some r)"
proof -
  let ?p = "period_resolver D"
  obtain reps' where a: "analyze st = Inr (st\<lparr>client_reports := reps'\<rparr>)"
    and l: "analyze_loop ?p (df st) (pd_unique (map Company (df st))) (client_reports st) = Inr reps'"
    using analyze_result [OF assms(2)] by blast
  from a assms(1) have "client_reports st' = reps'" by auto
  with assms(4) have m: "map_of reps' c = Some r" by simp
  have look: "map_of reps' c =
     (if c \<in> set (pd_unique (map Company (df st))) \<and> curr_df ?p (df st) c \<noteq> []
      then (case analyze_company ?p (df st) c of Inr v \<Rightarrow> v | Inl e \<Rightarrow> None)
      else map_of (client_reports st) c)"
    using l by (rule analyze_loop_lookup)
  show ne: "curr_df ?p (df st) c \<noteq> []"
    using look m assms(3) by (auto split: if_splits)
  then obtain r' where r': "analyze_company ?p (df st) c = Inr (Some r')"
    using analyze_company_report by blast
  have "c \<in> set (pd_unique (map Company (df st)))"
    using look m assms(3) by (auto split: if_splits)
  with look m ne r' have "r' = r" by simp
  then show "analyze_company ?p (df st) c = Inr (Some r)" using r' by simp
qed

lemma analyze_report_fields:
  assumes "analyze_company p d c = Inr (Some r)"
  shows "current r = get_metrics (curr_df p d c)"
    and "prev r = (if prev_df p d c = [] then sentinel else get_metrics (prev_df p d c))"
    and "delta r = delta_of (current r) (prev r)"
proof -
  have ne: "curr_df p d c \<noteq> []"
    using assms analyze_company_skip [of p d c] by auto
  then obtain r' where r': "analyze_company p d c = Inr (Some r')"
    "current r' = get_metrics (curr_df p d c)"
    "prev r' = (if prev_df p d c \<noteq> [] then get_metrics (prev_df p d c) else sentinel)"
    "delta r' = delta_of (current r') (prev r')"
    using analyze_company_report [of p d c] by blast
  with assms have "r' = r" by simp
  with r' show "current r = get_metrics (curr_df p d c)"
    and "prev r = (if prev_df p d c = [] then sentinel else get_metrics (prev_df p d c))"
    and "delta r = delta_of (current r) (prev r)" by auto
qed

lemma delta_pct_finite: "b \<noteq> 0 \<Longrightarrow> delta_pct (Fin a) (Fin b) = Fin ((a - b) / b * 100)"
  by (simp add: delta_pct_def)

section \<open>The example datasets, analysed\<close>

lemma analyze_acme_app:
  "analyze acme_app = Inr (acme_app\<lparr>client_reports := [(''Acme'', acme_report)]\<rparr>)"
  by code_simp

lemma max_date_acme_app:
  "max_date (df acme_app) = Some \<lparr>year = 2024, month = 3, day = 1, tod = 0\<rparr>"
  by code_simp


section \<open>Facts about the narrative loop\<close>

lemma generate_loop_length: "length (generate_loop gen st items) = length items"
  by (induction items) auto

lemma generate_loop_nth:
  "i < length items \<Longrightarrow>
   generate_loop gen st items ! i =
     (fst (items ! i),
      (snd (items ! i))\<lparr>narrative := narrative_for gen st (fst (items ! i)) (snd (items ! i))\<rparr>)"
proof (induction items arbitrary: i)
  case Nil
  then show ?case by simp
next
  case (Cons x xs)
  obtain c r where x: "x = (c, r)" by (cases x)
  show ?case
  proof (cases i)
    case 0
    then show ?thesis by (simp add: x)
  next
    case (Suc k)
    with Cons.prems have "k < length xs" by simp
    then show ?thesis using Cons.IH Suc by (simp add: x)
  qed
qed

lemma generate_loop_keys: "map fst (generate_loop gen st items) = map fst items"
  by (induction items) auto

lemma generate_loop_demo:
  "\<not> ai_enabled st \<Longrightarrow>
   generate_loop gen st items =
     map (\<lambda>e. (fst e, (snd e)\<lparr>narrative := ''Demo Mode: AI analysis skipped.''\<rparr>)) items"
  by (induction items) (auto simp: narrative_for_def)

section \<open>Facts about the model search\<close>

lemma find_first_index:
  assumes "\<exists>x \<in> set xs. P x"
  shows "\<exists>i < length xs. find P xs = Some (xs ! i) \<and> P (xs ! i) \<and> (\<forall>j < i. \<not> P (xs ! j))"
proof -
  from assms have "find P xs \<noteq> None" by (auto simp: find_None_iff)
  then obtain x where "find P xs = Some x" by blast
  then show ?thesis unfolding find_Some_iff by blast
qed

lemma find_working_model_Some:
  "find_working_model (Some ms) =
     (case find (\<lambda>p. p \<in> set (available_models ms)) priorities of
        Some p \<Rightarrow> Some p
      | None \<Rightarrow> find (\<lambda>m. sublist ''gemini'' m) (available_models ms))"
  by (simp add: find_working_model_def Let_def)

section \<open>The reporting periods\<close>

text \<open>
  C2. For a dataset whose rows carry valid timestamps and whose latest timestamp is \<open>D\<close>:
  \<open>D\<close> is the timestamp of a row and no row is later; the current period ends at \<open>D\<close> and
  starts on the first day of the month of \<open>D\<close>; the previous period ends one day before
  the start of the current one (the calendar day with the preceding ordinal, at the same
  time of day), which is the last day of the month before, in the year before when \<open>D\<close>
  lies in January; and the previous period starts on the first day of the month of its end.
\<close>

theorem period_resolver_months:
  assumes "max_date d = Some D" and "\<forall>r \<in> set d. valid_ts (Date r)"
  shows "D \<in> Date ` set d \<and> (\<forall>r \<in> set d. ts_le (Date r) D)
    \<and> last_date (period_resolver D) = D
    \<and> current_month_start (period_resolver D) = D\<lparr>day := 1\<rparr>
    \<and> prev_month_end (period_resolver D) = minus_one_day (current_month_start (period_resolver D))
    \<and> Suc (toordinal (prev_month_end (period_resolver D)))
        = toordinal (current_month_start (period_resolver D))
    \<and> tod (prev_month_end (period_resolver D)) = tod D
    \<and> year (prev_month_end (period_resolver D)) = (if month D = 1 then year D - 1 else year D)
    \<and> month (prev_month_end (period_resolver D)) = (if month D = 1 then 12 else month D - 1)
    \<and> day (prev_month_end (period_resolver D))
        = days_in_month (year (prev_month_end (period_resolver D)))
            (month (prev_month_end (period_resolver D)))
    \<and> prev_month_start (period_resolver D) = (prev_month_end (period_resolver D))\<lparr>day := 1\<rparr>"
proof -
  have mem: "D \<in> Date ` set d" using assms(1) by (rule max_date_mem)
  then have v: "valid_ts D" using assms(2) by auto
  have ge: "\<forall>r \<in> set d. ts_le (Date r) D" using assms(1) max_date_ge by blast
  have m: "1 \<le> month D" "2 \<le> year D" using v by (simp_all add: valid_ts_def)
  have ord: "Suc (toordinal (minus_one_day (replace_day1 D))) = toordinal (replace_day1 D)"
    by (rule toordinal_minus_one_day) (use m in \<open>simp_all add: replace_day1_def\<close>)
  have parts: "year (minus_one_day (replace_day1 D)) = (if month D = 1 then year D - 1 else year D)"
     "month (minus_one_day (replace_day1 D)) = (if month D = 1 then 12 else month D - 1)"
     "tod (minus_one_day (replace_day1 D)) = tod D"
    using m by (auto simp: minus_one_day_def replace_day1_def)
  have last: "day (minus_one_day (replace_day1 D))
     = days_in_month (year (minus_one_day (replace_day1 D))) (month (minus_one_day (replace_day1 D)))"
    using m by (auto simp: minus_one_day_def replace_day1_def days_in_month_def)
  show ?thesis
    using mem ge ord parts last
    by (simp add: period_resolver_def Let_def replace_day1_def)
qed

theorem period_resolver_months_witness:
  "max_date [jan_row] = Some (Date jan_row) \<and> valid_ts (Date jan_row)
   \<and> prev_month_end (period_resolver (Date jan_row)) = \<lparr>year = 2023, month = 12, day = 31, tod = 0\<rparr>
   \<and> prev_month_start (period_resolver (Date jan_row)) = \<lparr>year = 2023, month = 12, day = 1, tod = 0\<rparr>
   \<and> current_month_start (period_resolver (Date jan_row)) = \<lparr>year = 2024, month = 1, day = 1, tod = 0\<rparr>"
proof -
  have h1: "max_date [jan_row] = Some (Date jan_row)" by (simp add: max_date_def)
  have v: "valid_ts (Date jan_row)"
    by (simp add: jan_row_def valid_ts_def days_in_month_def)
  then have h2: "\<forall>r \<in> set [jan_row]. valid_ts (Date r)" by simp
  show ?thesis
    using h1 v period_resolver_months [OF h1 h2]
    by (simp add: jan_row_def period_resolver_def replace_day1_def minus_one_day_def)
qed

section \<open>The metrics of a period\<close>





section \<open>The best channel\<close>



section \<open>The deltas of a report\<close>

text \<open>
  C1. After \<^verbatim>\<open>analyze\<close> has run on a fresh report dictionary, the report of every client
  holds the metrics of the client's current rows, as previous metrics the metrics of the
  client's previous rows when there are such rows and the sentinel (1, 1, 1) when there
  are none, and for each of spend, ROI and conversion the delta
  \<open>(curr - prev) / prev * 100\<close>, computed with the float operations; for numbers \<open>a\<close>
  and \<open>b \<noteq> 0\<close> that is the number \<open>(a - b) / b * 100\<close>.
\<close>

theorem delta_calculator:
  assumes "analyze st = Inr st'" and "max_date (df st) = Some D"
    and "client_reports st = []" and "map_of (client_reports st') c = Some r"
  shows "current r = get_metrics (curr_df (period_resolver D) (df st) c)
    \<and> prev r = (if prev_df (period_resolver D) (df st) c = [] then sentinel
                else get_metrics (prev_df (period_resolver D) (df st) c))
    \<and> spend_pct (delta r)
        = fmul (fdiv (fsub (spend (current r)) (spend (prev r))) (spend (prev r))) (Fin 100)
    \<and> roi_pct (delta r)
        = fmul (fdiv (fsub (roi (current r)) (roi (prev r))) (roi (prev r))) (Fin 100)
    \<and> conv_pct (delta r)
        = fmul (fdiv (fsub (conv (current r)) (conv (prev r))) (conv (prev r))) (Fin 100)
    \<and> (\<forall>a b. spend (current r) = Fin a \<and> spend (prev r) = Fin b \<and> b \<noteq> 0
          \<longrightarrow> spend_pct (delta r) = Fin ((a - b) / b * 100))
    \<and> (\<forall>a b. roi (current r) = Fin a \<and> roi (prev r) = Fin b \<and> b \<noteq> 0
          \<longrightarrow> roi_pct (delta r) = Fin ((a - b) / b * 100))
    \<and> (\<forall>a b. conv (current r) = Fin a \<and> conv (prev r) = Fin b \<and> b \<noteq> 0
          \<longrightarrow> conv_pct (delta r) = Fin ((a - b) / b * 100))"
proof -
  have co: "analyze_company (period_resolver D) (df st) c = Inr (Some r)"
    using assms by (rule analyze_stored_report(2))
  note f = analyze_report_fields [OF co]
  have d: "spend_pct (delta r) = delta_pct (spend (current r)) (spend (prev r))"
    "roi_pct (delta r) = delta_pct (roi (current r)) (roi (prev r))"
    "conv_pct (delta r) = delta_pct (conv (current r)) (conv (prev r))"
    by (simp_all add: f(3) delta_of_def)
  have fin: "\<And>x y a b. x = Fin a \<and> y = Fin b \<and> b \<noteq> 0
      \<Longrightarrow> delta_pct x y = Fin ((a - b) / b * 100)"
    using delta_pct_finite by blast
  show ?thesis
    unfolding d using f(1,2) fin by (simp add: delta_pct_def)
qed

theorem delta_calculator_witness:
  "analyze acme_app = Inr (acme_app\<lparr>client_reports := [(''Acme'', acme_report)]\<rparr>)
   \<and> max_date (df acme_app) = Some \<lparr>year = 2024, month = 3, day = 1, tod = 0\<rparr>
   \<and> client_reports acme_app = []
   \<and> map_of (client_reports (acme_app\<lparr>client_reports := [(''Acme'', acme_report)]\<rparr>)) ''Acme''
       = Some acme_report
   \<and> prev acme_report = sentinel
   \<and> spend_pct (delta acme_report) = Fin ((150 - 1) / 1 * 100)
   \<and> roi_pct (delta acme_report) = Fin ((9/4 - 1) / 1 * 100)
   \<and> conv_pct (delta acme_report) = Fin ((15 - 1) / 1 * 100)"
proof -
  note a = analyze_acme_app
  note m = max_date_acme_app
  have e: "client_reports acme_app = []" by (simp add: acme_app_def)
  have l: "map_of (client_reports (acme_app\<lparr>client_reports := [(''Acme'', acme_report)]\<rparr>)) ''Acme''
       = Some acme_report" by simp
  show ?thesis
    using a m e l delta_calculator [OF a m e l]
    by (simp add: acme_report_def sentinel_def)
qed

section \<open>The divisors of the deltas\<close>




section \<open>One report for each client with current rows\<close>



section \<open>The choice of the model\<close>

text \<open>
  C6. The available models are the names of the listed models that support
  \<^verbatim>\<open>generateContent\<close>. When an entry of the priority list is available,
  \<^verbatim>\<open>find_working_model\<close> returns the first entry of the list that is available, so no
  entry before it in the list is available. When none is available and some available
  name contains \<^verbatim>\<open>gemini\<close>, it returns the first available name that does. Otherwise,
  and when the listing raises, it returns \<^verbatim>\<open>None\<close>.
\<close>

theorem capability_prober:
  "find_working_model None = None
   \<and> available_models ms =
       map name (filter (\<lambda>m. ''generateContent'' \<in> set (supported_generation_methods m)) ms)
   \<and> ((\<exists>p \<in> set priorities. p \<in> set (available_models ms)) \<longrightarrow>
        (\<exists>i < length priorities.
           find_working_model (Some ms) = Some (priorities ! i)
           \<and> priorities ! i \<in> set (available_models ms)
           \<and> (\<forall>j < i. priorities ! j \<notin> set (available_models ms))))
   \<and> ((\<forall>p \<in> set priorities. p \<notin> set (available_models ms))
        \<and> (\<exists>m \<in> set (available_models ms). sublist ''gemini'' m) \<longrightarrow>
        (\<exists>i < length (available_models ms).
           find_working_model (Some ms) = Some (available_models ms ! i)
           \<and> sublist ''gemini'' (available_models ms ! i)
           \<and> (\<forall>j < i. \<not> sublist ''gemini'' (available_models ms ! j))))
   \<and> ((\<forall>p \<in> set priorities. p \<notin> set (available_models ms))
        \<and> (\<forall>m \<in> set (available_models ms). \<not> sublist ''gemini'' m) \<longrightarrow>
        find_working_model (Some ms) = None)"
proof -
  let ?av = "available_models ms"
  have a: "find_working_model None = None" by (simp add: find_working_model_def)
  have b: "?av = map name (filter (\<lambda>m. ''generateContent'' \<in> set (supported_generation_methods m)) ms)"
    by (simp add: available_models_def)
  have c: "\<exists>i < length priorities.
           find_working_model (Some ms) = Some (priorities ! i)
           \<and> priorities ! i \<in> set ?av \<and> (\<forall>j < i. priorities ! j \<notin> set ?av)"
    if "\<exists>p \<in> set priorities. p \<in> set ?av"
  proof -
    from that obtain i where i: "i < length priorities"
      "find (\<lambda>p. p \<in> set ?av) priorities = Some (priorities ! i)"
      "priorities ! i \<in> set ?av" "\<forall>j < i. priorities ! j \<notin> set ?av"
      using find_first_index [of priorities "\<lambda>p. p \<in> set ?av"] by blast
    have "find_working_model (Some ms) = Some (priorities ! i)"
      by (simp add: find_working_model_Some i(2))
    with i show ?thesis by blast
  qed
  have none: "find (\<lambda>p. p \<in> set ?av) priorities = None"
    if "\<forall>p \<in> set priorities. p \<notin> set ?av"
    using that by (simp add: find_None_iff)
  have d: "\<exists>i < length ?av.
           find_working_model (Some ms) = Some (?av ! i)
           \<and> sublist ''gemini'' (?av ! i) \<and> (\<forall>j < i. \<not> sublist ''gemini'' (?av ! j))"
    if "\<forall>p \<in> set priorities. p \<notin> set ?av" "\<exists>m \<in> set ?av. sublist ''gemini'' m"
  proof -
    from that(2) obtain i where i: "i < length ?av"
      "find (\<lambda>m. sublist ''gemini'' m) ?av = Some (?av ! i)"
      "sublist ''gemini'' (?av ! i)" "\<forall>j < i. \<not> sublist ''gemini'' (?av ! j)"
      using find_first_index [of ?av "\<lambda>m. sublist ''gemini'' m"] by blast
    have "find_working_model (Some ms) = Some (?av ! i)"
      by (simp add: find_working_model_Some none [OF that(1)] i(2))
    with i show ?thesis by blast
  qed
  have e: "find_working_model (Some ms) = None"
    if "\<forall>p \<in> set priorities. p \<notin> set ?av" "\<forall>m \<in> set ?av. \<not> sublist ''gemini'' m"
  proof -
    have "find (\<lambda>m. sublist ''gemini'' m) ?av = None"
      using that(2) by (simp add: find_None_iff)
    then show ?thesis by (simp add: find_working_model_Some none [OF that(1)])
  qed
  show ?thesis using a b c d e by blast
qed

theorem capability_prober_witness:
  "priorities = [''models/gemini-1.5-pro'', ''models/gemini-1.5-flash'', ''models/gemini-pro'']
   \<and> available_models flash_then_pro = [''models/gemini-1.5-flash'', ''models/gemini-1.5-pro'']
   \<and> find_working_model (Some flash_then_pro) = Some ''models/gemini-1.5-pro''
   \<and> find_working_model (Some legacy_only) = Some ''models/gemini-pro''
   \<and> available_models family_only = [''models/text-bison'', ''models/gemini-ultra'']
   \<and> set priorities \<inter> set (available_models family_only) = {}
   \<and> sublist ''gemini'' ''models/gemini-ultra''
   \<and> find_working_model (Some family_only) = Some ''models/gemini-ultra''
   \<and> available_models no_family = [''models/text-bison'']
   \<and> find_working_model (Some no_family) = None"
proof -
  have p: "priorities = [''models/gemini-1.5-pro'', ''models/gemini-1.5-flash'', ''models/gemini-pro'']"
    by (simp add: priorities_def)
  have a1: "available_models flash_then_pro = [''models/gemini-1.5-flash'', ''models/gemini-1.5-pro'']"
    by code_simp
  have a2: "available_models family_only = [''models/text-bison'', ''models/gemini-ultra'']"
    by code_simp
  have a3: "available_models no_family = [''models/text-bison'']"
    by code_simp
  have r1: "find_working_model (Some flash_then_pro) = Some ''models/gemini-1.5-pro''" by code_simp
  have r2: "find_working_model (Some legacy_only) = Some ''models/gemini-pro''" by code_simp
  have r3: "find_working_model (Some family_only) = Some ''models/gemini-ultra''" by code_simp
  have r4: "find_working_model (Some no_family) = None" by code_simp
  have d: "set priorities \<inter> set (available_models family_only) = {}"
    unfolding p a2 by simp
  have g: "sublist ''gemini'' ''models/gemini-ultra''" by code_simp
  have h1: "\<exists>p \<in> set priorities. p \<in> set (available_models flash_then_pro)"
    unfolding p a1 by simp
  have h2: "\<forall>p \<in> set priorities. p \<notin> set (available_models family_only)"
    using d by blast
  have h3: "\<exists>m \<in> set (available_models family_only). sublist ''gemini'' m"
    unfolding a2 using g by simp
  have h4: "\<forall>p \<in> set priorities. p \<notin> set (available_models no_family)"
    unfolding p a3 by simp
  have h5: "\<forall>m \<in> set (available_models no_family). \<not> sublist ''gemini'' m"
    unfolding a3 by code_simp
  note t1 = capability_prober [of flash_then_pro]
  note t2 = capability_prober [of family_only]
  note t3 = capability_prober [of no_family]
  have "find_working_model (Some no_family) = None" using t3 h4 h5 by blast
  moreover have "\<exists>i < length (available_models family_only).
      find_working_model (Some family_only) = Some (available_models family_only ! i)"
    using t2 h2 h3 by blast
  moreover have "\<exists>i < length priorities.
      find_working_model (Some flash_then_pro) = Some (priorities ! i)"
    using t1 h1 by blast
  ultimately show ?thesis using p a1 a2 a3 r1 r2 r3 d g by blast
qed

section \<open>The narratives\<close>

text \<open>
  C7. \<^verbatim>\<open>generate_report_text\<close> keeps every report, under the same client and in the same
  place. With a key and a model, a client whose generation call fails gets the narrative
  \<^verbatim>\<open>AI Unavailable.\<close> and keeps its report with everything else in it as computed. Without
  a usable model (or without a key) every client gets the narrative
  \<^verbatim>\<open>Demo Mode: AI analysis skipped.\<close> and nothing else in its report changes. The function
  returns in every case: a failing call is caught inside the loop.
\<close>

theorem narrative_fallbacks:
  "map fst (client_reports (generate_report_text gen st)) = map fst (client_reports st)
   \<and> (\<forall>i < length (client_reports st).
         ai_enabled st \<and> gen (fst (client_reports st ! i)) (snd (client_reports st ! i)) = None
         \<longrightarrow> client_reports (generate_report_text gen st) ! i
              = (fst (client_reports st ! i),
                 (snd (client_reports st ! i))\<lparr>narrative := ''AI Unavailable.''\<rparr>))
   \<and> (model st = None \<longrightarrow> \<not> ai_enabled st)
   \<and> (\<not> ai_enabled st \<longrightarrow>
         client_reports (generate_report_text gen st)
           = map (\<lambda>e. (fst e, (snd e)\<lparr>narrative := ''Demo Mode: AI analysis skipped.''\<rparr>))
               (client_reports st))"
proof -
  have k: "map fst (client_reports (generate_report_text gen st)) = map fst (client_reports st)"
    by (simp add: generate_report_text_def generate_loop_keys)
  have f: "client_reports (generate_report_text gen st) ! i
              = (fst (client_reports st ! i),
                 (snd (client_reports st ! i))\<lparr>narrative := ''AI Unavailable.''\<rparr>)"
    if "i < length (client_reports st)" "ai_enabled st"
       "gen (fst (client_reports st ! i)) (snd (client_reports st ! i)) = None" for i
    using that by (simp add: generate_report_text_def generate_loop_nth narrative_for_def)
  have m: "model st = None \<longrightarrow> \<not> ai_enabled st" by (simp add: ai_enabled_def)
  have d: "client_reports (generate_report_text gen st)
           = map (\<lambda>e. (fst e, (snd e)\<lparr>narrative := ''Demo Mode: AI analysis skipped.''\<rparr>))
               (client_reports st)" if "\<not> ai_enabled st"
    using that by (simp add: generate_report_text_def generate_loop_demo)
  show ?thesis using k f m d by blast
qed

theorem narrative_fallbacks_witness:
  "ai_enabled acme_keyed \<and> length (client_reports acme_keyed) = 1
   \<and> failing_gen (fst (client_reports acme_keyed ! 0)) (snd (client_reports acme_keyed ! 0)) = None
   \<and> client_reports (generate_report_text failing_gen acme_keyed)
       = [(''Acme'', acme_report\<lparr>narrative := ''AI Unavailable.''\<rparr>)]
   \<and> model acme_done = None
   \<and> client_reports (generate_report_text failing_gen acme_done)
       = [(''Acme'', acme_report\<lparr>narrative := ''Demo Mode: AI analysis skipped.''\<rparr>)]
   \<and> client_reports (generate_report_text answering_gen acme_keyed)
       = [(''Acme'', acme_report\<lparr>narrative := '' ROI is up''\<rparr>)]"
proof -
  have e: "ai_enabled acme_keyed"
    by (simp add: ai_enabled_def acme_keyed_def acme_done_def acme_app_def)
  have l: "client_reports acme_keyed = [(''Acme'', acme_report)]"
    by (simp add: acme_keyed_def acme_done_def)
  have l': "client_reports acme_done = [(''Acme'', acme_report)]"
    by (simp add: acme_done_def)
  have g: "failing_gen (fst (client_reports acme_keyed ! 0)) (snd (client_reports acme_keyed ! 0)) = None"
    by (simp add: failing_gen_def)
  have n: "model acme_done = None" by (simp add: acme_done_def acme_app_def)
  have a: "client_reports (generate_report_text answering_gen acme_keyed)
       = [(''Acme'', acme_report\<lparr>narrative := '' ROI is up''\<rparr>)]"
    using e by (simp add: generate_report_text_def l narrative_for_def answering_gen_def
        clean_markdown_def)
  note t1 = narrative_fallbacks [of failing_gen acme_keyed]
  note t2 = narrative_fallbacks [of failing_gen acme_done]
  have "client_reports (generate_report_text failing_gen acme_keyed) ! 0
      = (''Acme'', acme_report\<lparr>narrative := ''AI Unavailable.''\<rparr>)"
    using t1 e g by (simp add: l)
  moreover have "length (client_reports (generate_report_text failing_gen acme_keyed)) = 1"
    by (simp add: generate_report_text_def generate_loop_length l)
  ultimately have f: "client_reports (generate_report_text failing_gen acme_keyed)
       = [(''Acme'', acme_report\<lparr>narrative := ''AI Unavailable.''\<rparr>)]"
    by (cases "client_reports (generate_report_text failing_gen acme_keyed)") auto
  have "\<not> ai_enabled acme_done" using t2 n by blast
  then have d: "client_reports (generate_report_text failing_gen acme_done)
       = [(''Acme'', acme_report\<lparr>narrative := ''Demo Mode: AI analysis skipped.''\<rparr>)]"
    using t2 by (simp add: l')
  show ?thesis using e l g f n d a by simp
qed

text \<open>
  C10. \<^verbatim>\<open>generate_report_text\<close> changes nothing but narratives: the dataset, the key and
  the model of the state stay, the report dictionary keeps its length and its clients, and
  in every report the current and the previous metrics, the deltas, the best channel with
  its ROI and the trend series are what they were before.
\<close>

theorem narrative_stage_frame:
  "df (generate_report_text gen st) = df st
   \<and> api_key (generate_report_text gen st) = api_key st
   \<and> model (generate_report_text gen st) = model st
   \<and> length (client_reports (generate_report_text gen st)) = length (client_reports st)
   \<and> (\<forall>i < length (client_reports st).
         fst (client_reports (generate_report_text gen st) ! i) = fst (client_reports st ! i)
         \<and> current (snd (client_reports (generate_report_text gen st) ! i))
             = current (snd (client_reports st ! i))
         \<and> prev (snd (client_reports (generate_report_text gen st) ! i))
             = prev (snd (client_reports st ! i))
         \<and> delta (snd (client_reports (generate_report_text gen st) ! i))
             = delta (snd (client_reports st ! i))
         \<and> best_channel (snd (client_reports (generate_report_text gen st) ! i))
             = best_channel (snd (client_reports st ! i))
         \<and> best_channel_roi (snd (client_reports (generate_report_text gen st) ! i))
             = best_channel_roi (snd (client_reports st ! i))
         \<and> trend_data (snd (client_reports (generate_report_text gen st) ! i))
             = trend_data (snd (client_reports st ! i)))"
  by (simp add: generate_report_text_def generate_loop_length generate_loop_nth)

theorem narrative_stage_frame_witness:
  "length (client_reports acme_keyed) = 1
   \<and> fst (client_reports (generate_report_text answering_gen acme_keyed) ! 0) = ''Acme''
   \<and> current (snd (client_reports (generate_report_text answering_gen acme_keyed) ! 0))
       = \<lparr>spend = Fin 150, roi = Fin (9/4), conv = Fin 15\<rparr>
   \<and> delta (snd (client_reports (generate_report_text answering_gen acme_keyed) ! 0))
       = \<lparr>spend_pct = Fin 14900, roi_pct = Fin 125, conv_pct = Fin 1400\<rparr>
   \<and> best_channel (snd (client_reports (generate_report_text answering_gen acme_keyed) ! 0))
       = ''Search''
   \<and> narrative (snd (client_reports (generate_report_text answering_gen acme_keyed) ! 0))
       = '' ROI is up''"
proof -
  have l: "client_reports acme_keyed = [(''Acme'', acme_report)]"
    by (simp add: acme_keyed_def acme_done_def)
  have e: "ai_enabled acme_keyed"
    by (simp add: ai_enabled_def acme_keyed_def acme_done_def acme_app_def)
  have n: "narrative (snd (client_reports (generate_report_text answering_gen acme_keyed) ! 0))
       = '' ROI is up''"
    using e by (simp add: generate_report_text_def l narrative_for_def answering_gen_def
        clean_markdown_def)
  show ?thesis
    using n narrative_stage_frame [of answering_gen acme_keyed]
    by (simp add: l acme_report_def)
qed

end
